theory Spec2Isabelle
  imports Complex_Main "HOL-Library.Sublist"
begin

section \<open>Python values used by finance_chatbot.py\<close>

text \<open>
  A Python \<open>str\<close> is modelled by its UTF-8 encoding, a \<^typ>\<open>string\<close> (list of bytes).
  Concatenation and \<open>startswith\<close> on code points agree with concatenation and
  \<^const>\<open>prefix\<close> on the encodings. A raised exception is a value \<open>Exception m\<close>,
  where \<open>m\<close> is what \<open>str(e)\<close> gives; an operation that can raise returns
  \<open>exn + 'a\<close> with \<open>Inl\<close> for the exception that leaves the function.
\<close>

datatype exn = Exception string

definition newline :: string where
  "newline = [CHR 0x0A]"

text \<open>The two glyphs of the source's messages: U+274C, and U+2139 U+FE0F.\<close>

definition cross_mark :: string where
  "cross_mark = [CHR 0xE2, CHR 0x9D, CHR 0x8C]"

definition info_mark :: string where
  "info_mark = [CHR 0xE2, CHR 0x84, CHR 0xB9, CHR 0xEF, CHR 0xB8, CHR 0x8F]"

text \<open>\<open>s.startswith(p)\<close>.\<close>

definition startswith :: "string \<Rightarrow> string \<Rightarrow> bool" where
  "startswith s p = prefix p s"

subsection \<open>Numbers and their text\<close>

text \<open>
  \<open>str(n)\<close> for an integer: decimal digits, with a minus sign when negative.
\<close>

definition digit_char :: "int \<Rightarrow> char" where
  "digit_char d =
     (if d = 0 then CHR ''0'' else if d = 1 then CHR ''1'' else if d = 2 then CHR ''2''
      else if d = 3 then CHR ''3'' else if d = 4 then CHR ''4'' else if d = 5 then CHR ''5''
      else if d = 6 then CHR ''6'' else if d = 7 then CHR ''7'' else if d = 8 then CHR ''8''
      else CHR ''9'')"

text \<open>The digits of a non-negative integer.\<close>

function show_digits :: "int \<Rightarrow> string" where
  "show_digits n =
     (if n < 10 then [digit_char n] else show_digits (n div 10) @ [digit_char (n mod 10)])"
  by pat_completeness auto
termination
  by (relation "measure nat") auto

declare show_digits.simps [simp del]

definition show_int :: "int \<Rightarrow> string" where
  "show_int i = (if i < 0 then ''-'' @ show_digits (- i) else show_digits i)"

text \<open>A non-negative integer padded with zeros to the width \<open>w\<close> (\<open>%d\<close>, \<open>%m\<close>, \<open>%Y\<close>).\<close>

definition zero_pad :: "nat \<Rightarrow> int \<Rightarrow> string" where
  "zero_pad w n = replicate (w - length (show_digits n)) (CHR ''0'') @ show_digits n"

text \<open>
  A finite Python \<open>float\<close> is modelled by the rational number it denotes, and float
  arithmetic by exact arithmetic: the last-bit rounding of a division is not modelled,
  and there is no NaN or infinity. \<open>round(x, ndigits)\<close> rounds to the nearest multiple
  of \<open>10 ** -ndigits\<close>, a tie going to the even one; \<open>int(x)\<close> truncates towards
  zero. How a float prints inside an f-string is left to the environment (\<open>str_float\<close>
  below). This is the Python \<open>float\<close> of the exchange rates; the cells of the price
  frame are \<open>numpy.float64\<close> values, which have a rounding of their own (see
  \<open>round_float64\<close> below).
\<close>

definition round_half_even :: "rat \<Rightarrow> int" where
  "round_half_even x =
     (let f = \<lfloor>x\<rfloor>; d = x - of_int f
      in if d < 1 / 2 then f else if 1 / 2 < d then f + 1
         else if even f then f else f + 1)"

definition py_round :: "rat \<Rightarrow> nat \<Rightarrow> rat" where
  "py_round x ndigits = of_int (round_half_even (x * 10 ^ ndigits)) / 10 ^ ndigits"

text \<open>
  A \<open>numpy.float64\<close>, the type of the cells of the price frame: a finite value (the
  rational number it denotes), NaN or an infinity. \<open>int(x)\<close> truncates a finite
  value towards zero; on NaN it raises \<open>ValueError\<close> and on an infinity
  \<open>OverflowError\<close>.
\<close>

datatype float64 = Finite rat | NaN | PosInf | NegInf

definition py_int :: "float64 \<Rightarrow> exn + int" where
  "py_int x =
     (case x of
        Finite q \<Rightarrow> Inr (if 0 \<le> q then \<lfloor>q\<rfloor> else \<lceil>q\<rceil>)
      | NaN \<Rightarrow> Inl (Exception ''cannot convert float NaN to integer'')
      | PosInf \<Rightarrow> Inl (Exception ''cannot convert float infinity to integer'')
      | NegInf \<Rightarrow> Inl (Exception ''cannot convert float infinity to integer''))"

text \<open>
  The format \<open>f"{c:.2f}"\<close>: for a finite value sign, integer part, a point and two
  digits; \<open>nan\<close>, \<open>inf\<close> and \<open>-inf\<close> for the others.
\<close>

definition fmt_2f :: "rat \<Rightarrow> string" where
  "fmt_2f c =
     (let a = \<bar>round_half_even (c * 100)\<bar>
      in (if c < 0 then ''-'' else []) @ show_digits (a div 100) @ ''.'' @
         [digit_char (a mod 100 div 10), digit_char (a mod 10)])"

definition format_2f :: "float64 \<Rightarrow> string" where
  "format_2f c =
     (case c of Finite x \<Rightarrow> fmt_2f x | NaN \<Rightarrow> ''nan'' | PosInf \<Rightarrow> ''inf''
      | NegInf \<Rightarrow> ''-inf'')"

subsection \<open>Strings\<close>

text \<open>
  \<open>s.upper()\<close> on ASCII letters; other bytes are kept (currency codes are ASCII; the
  upper-casing of non-ASCII letters is not modelled).
\<close>

definition upper_char :: "char \<Rightarrow> char" where
  "upper_char c =
     (if 97 \<le> (of_char c :: nat) \<and> (of_char c :: nat) \<le> 122
      then char_of ((of_char c :: nat) - 32) else c)"

definition upper :: "string \<Rightarrow> string" where
  "upper s = map upper_char s"

text \<open>\<open>sep.join(xs)\<close>.\<close>

fun join :: "string \<Rightarrow> string list \<Rightarrow> string" where
  "join sep [] = []"
| "join sep [x] = x"
| "join sep (x # y # ys) = x @ sep @ join sep (y # ys)"

text \<open>
  \<open>s[:n]\<close> takes \<open>n\<close> code points: in the UTF-8 encoding, \<open>n\<close> lead bytes, each with
  the continuation bytes (\<open>0x80\<close> to \<open>0xBF\<close>) that follow it.
\<close>

definition is_continuation :: "char \<Rightarrow> bool" where
  "is_continuation c = (128 \<le> (of_char c :: nat) \<and> (of_char c :: nat) < 192)"

fun take_code_points :: "nat \<Rightarrow> string \<Rightarrow> string" where
  "take_code_points n [] = []"
| "take_code_points n (c # cs) =
     (if is_continuation c then c # take_code_points n cs
      else (case n of 0 \<Rightarrow> [] | Suc m \<Rightarrow> c # take_code_points m cs))"

text \<open>\<open>s.replace("Z", "+00:00")\<close>.\<close>

definition replace_Z :: "string \<Rightarrow> string" where
  "replace_Z s = concat (map (\<lambda>c. if c = CHR ''Z'' then ''+00:00'' else [c]) s)"

text \<open>
  \<open>d.get(k, default)\<close> on a dict, which is an association list read with
  \<^const>\<open>map_of\<close>; \<open>d[k]\<close> raises \<open>KeyError\<close> on a missing key.
\<close>

definition dict_get :: "('k \<times> 'v) list \<Rightarrow> 'k \<Rightarrow> 'v \<Rightarrow> 'v" where
  "dict_get d k dflt = (case map_of d k of Some v \<Rightarrow> v | None \<Rightarrow> dflt)"

definition dict_index :: "(string \<times> 'v) list \<Rightarrow> string \<Rightarrow> exn + 'v" where
  "dict_index d k = (case map_of d k of Some v \<Rightarrow> Inr v | None \<Rightarrow> Inl (Exception k))"

text \<open>An \<open>os.environ.get\<close> value inside an f-string: \<open>None\<close> prints as \<open>None\<close>.\<close>

definition str_of_env :: "string option \<Rightarrow> string" where
  "str_of_env v = (case v of Some s \<Rightarrow> s | None \<Rightarrow> ''None'')"

section \<open>The external services and library calls\<close>

text \<open>
  One row of the price frame returned by \<open>history(period="7d")\<close>: the index entry (a
  date) and the columns the source reads. The frame is the list of its rows, oldest
  first; \<open>hist.empty\<close> is \<open>hist = []\<close> and \<open>hist.iloc[-1]\<close> is \<^term>\<open>last hist\<close>.
\<close>

record date =
  day :: int
  month :: int
  year :: int

record quote =
  Index :: date
  Close :: float64
  High :: float64
  Low :: float64
  Volume :: float64

text \<open>\<open>d.strftime("%d.%m.%Y")\<close>.\<close>

definition strftime_dmy :: "date \<Rightarrow> string" where
  "strftime_dmy d = zero_pad 2 (day d) @ ''.'' @ zero_pad 2 (month d) @ ''.'' @ zero_pad 4 (year d)"

text \<open>
  An HTTP response: \<open>status_code\<close>, and what \<open>response.json()\<close> gives (it raises on a
  body that is not JSON). The bodies have the shape the two services document: for the
  news service an object whose key \<open>articles\<close>, when present, is a list of objects with
  optional string fields (\<open>source_name\<close> is \<open>source.name\<close>); for the rate service an
  object with optional keys \<open>rates\<close> (currency code to number) and \<open>timestamp\<close>.
\<close>

record 'a response =
  status_code :: int
  json :: "exn + 'a"

record article =
  publishedAt :: "string option"
  title :: "string option"
  url :: "string option"
  source_name :: "string option"

record fx_data =
  rates :: "(string \<times> rat) list option"
  timestamp :: "int option"

text \<open>
  Everything the program reads from outside, as functions of what it sends:
  \<^item> \<open>yf_info t\<close>: the dict \<open>yf.Ticker(t).info\<close>, or the exception reading it raises;
  \<^item> \<open>yf_get_tickers q\<close>: \<open>yf.utils.get_tickers(q)\<close>;
  \<^item> \<open>yf_history t\<close>: \<open>yf.Ticker(t).history(period="7d")\<close>;
  \<^item> \<open>requests_get_news u\<close>, \<open>requests_get_fx u\<close>: \<open>requests.get(u)\<close> at the two services;
  \<^item> the two API keys of the environment;
  \<^item> \<open>str_float x\<close>: the text of a Python float inside an f-string;
  \<^item> \<open>round_float64 x n\<close>: \<open>round(x, n)\<close> on a \<open>numpy.float64\<close>, which is numpy's
    rounding (\<open>rint(x * 10 ** n) / 10 ** n\<close>, computed in floating point) and not
    Python's; it does not raise, and keeps NaN;
  \<^item> \<open>str_float64 x\<close>: the text of a \<open>numpy.float64\<close> inside an f-string;
  \<^item> \<open>utc_strftime t\<close>: \<open>datetime.utcfromtimestamp(t).strftime("%d.%m.%Y %H:%M")\<close>,
    which raises on a timestamp out of range;
  \<^item> \<open>iso_strftime s\<close>: \<open>datetime.fromisoformat(s).strftime("%d.%m.%Y %H:%M")\<close>, which
    raises on a string that is not an ISO date;
  \<^item> \<open>now_strftime\<close>: \<open>datetime.now().strftime("%d.%m.%Y %H:%M")\<close>.
\<close>

record env =
  yf_info :: "string \<Rightarrow> exn + (string \<times> string) list"
  yf_get_tickers :: "string \<Rightarrow> exn + string list"
  yf_history :: "string \<Rightarrow> exn + quote list"
  requests_get_news :: "string \<Rightarrow> exn + article list option response"
  requests_get_fx :: "string \<Rightarrow> exn + fx_data response"
  NEWSAPI_KEY :: "string option"
  OPENEXCHANGE_API_KEY :: "string option"
  str_float :: "rat \<Rightarrow> string"
  round_float64 :: "float64 \<Rightarrow> nat \<Rightarrow> float64"
  str_float64 :: "float64 \<Rightarrow> string"
  utc_strftime :: "int \<Rightarrow> exn + string"
  iso_strftime :: "string \<Rightarrow> exn + string"
  now_strftime :: string

definition SUPPORT_PHONE_NUMBER :: string where
  "SUPPORT_PHONE_NUMBER = ''070-1234-5678''"

section \<open>Ticker search (source section 3)\<close>

text \<open>
  \<open>find_ticker\<close>: every exception of the two lookups is swallowed and the query is
  returned. (The \<open>st.cache_data\<close> decorator does not change the value returned for a
  fixed state of the services.)
\<close>

definition find_ticker :: "env \<Rightarrow> string \<Rightarrow> string" where
  "find_ticker E query =
     (case yf_info E query of
        Inl e \<Rightarrow> query
      | Inr info \<Rightarrow>
          (case (if info \<noteq> [] then map_of info ''symbol'' else None) of
             Some symbol \<Rightarrow> symbol
           | None \<Rightarrow>
               (case yf_get_tickers E query of
                  Inl e \<Rightarrow> query
                | Inr tickers \<Rightarrow> (case tickers of [] \<Rightarrow> query | t # ts \<Rightarrow> t))))"

section \<open>Stock price and price history (source section 4)\<close>

text \<open>
  The texts of \<open>get_stock_price\<close>: the footer, the f-string of the success case with
  its seven holes, and the two failure texts.
\<close>

definition price_footer :: "string \<Rightarrow> string" where
  "price_footer last_date = ''_Source: Yahoo Finance (yfinance), as of '' @ last_date @ ''_''"

definition price_message ::
  "string \<Rightarrow> string \<Rightarrow> string \<Rightarrow> string \<Rightarrow> string \<Rightarrow> string \<Rightarrow> string \<Rightarrow> string" where
  "price_message nm ticker last_date price high low volume =
     ''**'' @ nm @ '' ('' @ ticker @ '') as of '' @ last_date @ ''**'' @ newline @
     ''Closing price: **'' @ price @ '' USD**'' @ newline @
     ''High: '' @ high @ '' USD, Low: '' @ low @ '' USD, Volume: '' @ volume @ newline @ newline @
     price_footer last_date"

definition price_no_data :: string where
  "price_no_data = cross_mark @
     '' Could not find any price data. Please check the ticker symbol or company name.''"

definition price_error :: "string \<Rightarrow> string" where
  "price_error m = cross_mark @ '' Error while retrieving stock data: '' @ m @
     ''. Please contact support: '' @ SUPPORT_PHONE_NUMBER"

text \<open>
  The body of the \<open>try\<close> of \<open>get_stock_price\<close>: \<open>Inl\<close> is an exception raised in it,
  by the fetch of the rows, by \<open>int\<close> on a volume that is not finite, or by the read of
  \<open>info\<close>, in this order.
\<close>

definition stock_price_try :: "env \<Rightarrow> string \<Rightarrow> exn + string" where
  "stock_price_try E ticker =
     (case yf_history E ticker of
        Inl e \<Rightarrow> Inl e
      | Inr hist \<Rightarrow>
          if hist = [] then Inr price_no_data
          else
            (let last_quote = last hist;
                 price = round_float64 E (Close last_quote) 2;
                 high = round_float64 E (High last_quote) 2;
                 low = round_float64 E (Low last_quote) 2
             in case py_int (Volume last_quote) of
                  Inl e \<Rightarrow> Inl e
                | Inr volume \<Rightarrow>
                    (let last_date = strftime_dmy (Index (last hist))
                     in case yf_info E ticker of
                          Inl e \<Rightarrow> Inl e
                        | Inr info \<Rightarrow>
                            Inr (price_message (dict_get info ''shortName'' ticker) ticker
                                   last_date (str_float64 E price) (str_float64 E high)
                                   (str_float64 E low) (show_int volume)))))"

definition get_stock_price :: "env \<Rightarrow> string \<Rightarrow> exn + string" where
  "get_stock_price E ticker_or_name =
     (let ticker = find_ticker E ticker_or_name
      in case stock_price_try E ticker of
           Inl (Exception m) \<Rightarrow> Inr (price_error m)
         | Inr s \<Rightarrow> Inr s)"

text \<open>\<open>get_stock_history\<close> has no \<open>try\<close>: an exception of a lookup leaves the function.\<close>

definition history_no_data :: string where
  "history_no_data = cross_mark @ '' No stock data available for this company.''"

definition history_line :: "quote \<Rightarrow> string" where
  "history_line q = ''* **'' @ strftime_dmy (Index q) @ '': '' @ format_2f (Close q) @ '' USD**''"

definition history_message :: "string \<Rightarrow> string \<Rightarrow> quote list \<Rightarrow> string" where
  "history_message nm ticker hist =
     ''Here is the price history for '' @ nm @ '' ('' @ ticker @
     '') for the last seven days:'' @ newline @ newline @
     join newline (map history_line (rev hist))"

definition get_stock_history :: "env \<Rightarrow> string \<Rightarrow> exn + string" where
  "get_stock_history E ticker_or_name =
     (let ticker = find_ticker E ticker_or_name
      in case yf_history E ticker of
           Inl e \<Rightarrow> Inl e
         | Inr hist \<Rightarrow>
             if hist = [] then Inr history_no_data
             else
               (let hist7 = drop (length hist - 7) hist
                in case yf_info E ticker of
                     Inl e \<Rightarrow> Inl e
                   | Inr info \<Rightarrow>
                       Inr (history_message (dict_get info ''shortName'' ticker) ticker hist7)))"

section \<open>News (source section 5)\<close>

definition get_or :: "'a option \<Rightarrow> 'a \<Rightarrow> 'a" where
  "get_or v dflt = (case v of Some x \<Rightarrow> x | None \<Rightarrow> dflt)"

definition news_url :: "string \<Rightarrow> string option \<Rightarrow> string" where
  "news_url nm key =
     ''https://newsapi.org/v2/everything?'' @ ''q='' @ nm @ ''&'' @ ''language=en&'' @
     ''sortBy=publishedAt&'' @ ''pageSize=5&'' @ ''apiKey='' @ str_of_env key"

definition news_status_error :: "int \<Rightarrow> string" where
  "news_status_error status =
     cross_mark @ '' Error while retrieving news (Status '' @ show_int status @ '').''"

definition news_none_found :: "string \<Rightarrow> string" where
  "news_none_found nm = info_mark @ '' No recent news found for **'' @ nm @ ''**.''"

text \<open>One pass of the loop over the articles: the line added to \<open>result\<close>.\<close>

definition news_line :: "env \<Rightarrow> article \<Rightarrow> string" where
  "news_line E n =
     (let published = get_or (publishedAt n) [];
          published_str =
            (case iso_strftime E (replace_Z published) of
               Inl e \<Rightarrow> take_code_points 10 published
             | Inr s \<Rightarrow> s);
          title_text = get_or (title n) ''No title'';
          link = get_or (url n) [];
          source = get_or (source_name n) []
      in ''- '' @ published_str @ '' ('' @ source @ ''): ['' @ title_text @ '']('' @ link @ '')'' @
         newline)"

fun news_loop :: "env \<Rightarrow> string \<Rightarrow> article list \<Rightarrow> string" where
  "news_loop E result [] = result"
| "news_loop E result (n # ns) = news_loop E (result @ news_line E n) ns"

definition news_footer :: "env \<Rightarrow> string" where
  "news_footer E = newline @ ''_Source: newsapi.org, as of '' @ now_strftime E @ ''_''"

text \<open>
  \<open>get_financial_news\<close>: only the look-up of the display name is inside a \<open>try\<close>; an
  exception of \<open>requests.get\<close> or of \<open>response.json()\<close> leaves the function.
\<close>

definition get_financial_news :: "env \<Rightarrow> string \<Rightarrow> exn + string" where
  "get_financial_news E ticker_or_name =
     (let nm = (case yf_info E (find_ticker E ticker_or_name) of
                  Inl e \<Rightarrow> ticker_or_name
                | Inr info \<Rightarrow> dict_get info ''shortName'' ticker_or_name)
      in case requests_get_news E (news_url nm (NEWSAPI_KEY E)) of
           Inl e \<Rightarrow> Inl e
         | Inr response \<Rightarrow>
             if status_code response \<noteq> 200 then Inr (news_status_error (status_code response))
             else
               (case json response of
                  Inl e \<Rightarrow> Inl e
                | Inr body \<Rightarrow>
                    (let news = get_or body []
                     in if news = [] then Inr (news_none_found nm)
                        else Inr (news_loop E [] news @ news_footer E))))"

section \<open>Exchange rates (source section 6)\<close>

definition fx_url :: "string option \<Rightarrow> string" where
  "fx_url key = ''https://openexchangerates.org/api/latest.json?'' @ ''app_id='' @ str_of_env key"

definition fx_status_error :: "int \<Rightarrow> string" where
  "fx_status_error status =
     cross_mark @ '' Error while retrieving exchange rate (Status '' @ show_int status @ '').''"

definition fx_not_found :: string where
  "fx_not_found = cross_mark @ '' The currency pair could not be found.''"

definition rate_message :: "string \<Rightarrow> string \<Rightarrow> string \<Rightarrow> string \<Rightarrow> string" where
  "rate_message from_code rate to_code ts =
     ''1 '' @ from_code @ '' = **'' @ rate @ '' '' @ to_code @ ''**'' @ newline @
     ''_Source: Open Exchange Rates, as of '' @ ts @ '' UTC_''"

text \<open>\<open>a / b\<close> raises \<open>ZeroDivisionError\<close> on a zero divisor.\<close>

definition py_div :: "rat \<Rightarrow> rat \<Rightarrow> exn + rat" where
  "py_div a b = (if b = 0 then Inl (Exception ''division by zero'') else Inr (a / b))"

text \<open>
  The first three statements of the \<open>try\<close> of \<open>get_exchange_rate\<close>: the two table
  look-ups and the rounded ratio.
\<close>

definition compute_rate :: "(string \<times> rat) list \<Rightarrow> string \<Rightarrow> string \<Rightarrow> exn + rat" where
  "compute_rate table from_currency to_currency =
     (case dict_index table (upper from_currency) of
        Inl e \<Rightarrow> Inl e
      | Inr rate_from \<Rightarrow>
          (case dict_index table (upper to_currency) of
             Inl e \<Rightarrow> Inl e
           | Inr rate_to \<Rightarrow>
               (case py_div rate_to rate_from of
                  Inl e \<Rightarrow> Inl e
                | Inr q \<Rightarrow> Inr (py_round q 4))))"

text \<open>The whole body of the \<open>try\<close>.\<close>

definition exchange_rate_try ::
  "env \<Rightarrow> fx_data \<Rightarrow> (string \<times> rat) list \<Rightarrow> string \<Rightarrow> string \<Rightarrow> exn + string" where
  "exchange_rate_try E data table from_currency to_currency =
     (case compute_rate table from_currency to_currency of
        Inl e \<Rightarrow> Inl e
      | Inr exchange_rate \<Rightarrow>
          (case utc_strftime E (get_or (timestamp data) 0) of
             Inl e \<Rightarrow> Inl e
           | Inr ts \<Rightarrow>
               Inr (rate_message (upper from_currency) (str_float E exchange_rate)
                      (upper to_currency) ts)))"

text \<open>
  \<open>get_exchange_rate\<close>, the decorated function's body: \<open>requests.get\<close> and
  \<open>response.json()\<close> are outside the \<open>try\<close>.
\<close>

definition get_exchange_rate :: "env \<Rightarrow> string \<Rightarrow> string \<Rightarrow> exn + string" where
  "get_exchange_rate E from_currency to_currency =
     (case requests_get_fx E (fx_url (OPENEXCHANGE_API_KEY E)) of
        Inl e \<Rightarrow> Inl e
      | Inr response \<Rightarrow>
          if status_code response \<noteq> 200 then Inr (fx_status_error (status_code response))
          else
            (case json response of
               Inl e \<Rightarrow> Inl e
             | Inr data \<Rightarrow>
                 (let table = get_or (rates data) []
                  in case exchange_rate_try E data table from_currency to_currency of
                       Inl e \<Rightarrow> Inr fx_not_found
                     | Inr s \<Rightarrow> Inr s)))"

subsection \<open>The cache in front of \<open>get_exchange_rate\<close>\<close>

text \<open>
  The decorator \<open>st.cache_data(ttl=300)\<close> of line 212 belongs to the Streamlit
  library, which is not among the sources; the source fixes only the time to live and
  the two parameters of the decorated function. The cache is a list of entries
  \<open>((from, to), (stored_at, value))\<close>, the newest first, and the clock counts seconds.
\<close>

type_synonym fx_cache = "((string \<times> string) \<times> (nat \<times> string)) list"

definition fx_ttl :: nat where
  "fx_ttl = 300"

text \<open>
  Modelled from the spec: what the missing decorator does on a call that finds no usable
  entry. The function body runs; its text is stored under the pair of arguments with
  the time of the call; a call that raises stores nothing.
\<close>

definition fx_cache_miss ::
  "fx_cache \<Rightarrow> nat \<Rightarrow> env \<Rightarrow> string \<Rightarrow> string \<Rightarrow> (exn + string) \<times> fx_cache" where
  "fx_cache_miss cache now E from_currency to_currency =
     (case get_exchange_rate E from_currency to_currency of
        Inl e \<Rightarrow> (Inl e, cache)
      | Inr v \<Rightarrow> (Inr v, ((from_currency, to_currency), (now, v)) # cache))"

text \<open>
  Modelled from the spec: the missing decorator \<open>st.cache_data\<close>, as the
  specification's resource model describes the memoized results (ticker resolution,
  news, exchange rate): time-bounded caches keyed by input arguments, with no
  invalidation beyond expiry; and as its testable properties say: the same query
  repeated within the cache window returns the identical output without a second
  external fetch.
\<close>

definition get_exchange_rate_cached ::
  "fx_cache \<Rightarrow> nat \<Rightarrow> env \<Rightarrow> string \<Rightarrow> string \<Rightarrow> (exn + string) \<times> fx_cache" where
  "get_exchange_rate_cached cache now E from_currency to_currency =
     (case map_of cache (from_currency, to_currency) of
        Some (stored_at, v) \<Rightarrow>
          if now < stored_at + fx_ttl then (Inr v, cache)
          else fx_cache_miss cache now E from_currency to_currency
      | None \<Rightarrow> fx_cache_miss cache now E from_currency to_currency)"

section \<open>Session transcript and download (source section 7)\<close>

text \<open>
  A message is the dict \<open>{"role": r, "content": c}\<close>, with the key \<open>"name"\<close> present
  only in function-result messages.
\<close>

record message =
  role :: string
  name :: "string option"
  content :: string

text \<open>
  \<open>download_chat_history\<close>: the loop writes to a \<open>StringIO\<close>; the accumulator of the
  recursion is the text written so far. \<open>encode("utf-8")\<close> is the identity on the model
  of strings.
\<close>

fun write_messages :: "string \<Rightarrow> message list \<Rightarrow> string" where
  "write_messages out [] = out"
| "write_messages out (msg # msgs) =
     (if role msg = ''user'' then
        write_messages (out @ ''User: '' @ content msg @ newline) msgs
      else if role msg = ''assistant'' then
        write_messages (out @ ''Assistant: '' @ content msg @ newline) msgs
      else write_messages out msgs)"

definition download_chat_history :: "message list \<Rightarrow> string" where
  "download_chat_history messages = write_messages [] messages"

text \<open>The entry of one message, and the messages that have one.\<close>

definition is_chat_message :: "message \<Rightarrow> bool" where
  "is_chat_message msg = (role msg = ''user'' \<or> role msg = ''assistant'')"

definition chat_line :: "message \<Rightarrow> string" where
  "chat_line msg =
     (if role msg = ''user'' then ''User: '' else ''Assistant: '') @ content msg @ newline"

section \<open>Dispatch of a function call (source section 8)\<close>

text \<open>
  The \<open>if\<close>/\<open>elif\<close> chain on \<open>function_name\<close> and the \<open>append\<close> that follows it.
  \<open>arguments\<close> is the dict that \<open>json.loads\<close> returned; \<open>arguments.get(k)\<close> is
  \<open>None\<close> on a missing key, so the four callables are taken on optional strings. They
  are the four client operations in the program; the chain is modelled for any four
  callables, each of which may raise.
\<close>

record tools =
  call_get_stock_price :: "string option \<Rightarrow> exn + string"
  call_get_stock_history :: "string option \<Rightarrow> exn + string"
  call_get_financial_news :: "string option \<Rightarrow> exn + string"
  call_get_exchange_rate :: "string option \<Rightarrow> string option \<Rightarrow> exn + string"

definition function_response_of ::
  "tools \<Rightarrow> string \<Rightarrow> (string \<times> string) list \<Rightarrow> exn + string" where
  "function_response_of T function_name arguments =
     (if function_name = ''get_stock_price'' then
        call_get_stock_price T (map_of arguments ''ticker'')
      else if function_name = ''get_stock_history'' then
        call_get_stock_history T (map_of arguments ''ticker'')
      else if function_name = ''get_financial_news'' then
        call_get_financial_news T (map_of arguments ''ticker'')
      else if function_name = ''get_exchange_rate'' then
        call_get_exchange_rate T (map_of arguments ''from_currency'')
          (map_of arguments ''to_currency'')
      else Inr ''Unknown function call.'')"

definition dispatch ::
  "tools \<Rightarrow> message list \<Rightarrow> string \<Rightarrow> (string \<times> string) list \<Rightarrow> exn + message list" where
  "dispatch T messages function_name arguments =
     (case function_response_of T function_name arguments of
        Inl e \<Rightarrow> Inl e
      | Inr function_response \<Rightarrow>
          Inr (messages @
            [\<lparr>role = ''function'', name = Some function_name, content = function_response\<rparr>]))"

text \<open>The names of the four declarations of the list \<open>functions\<close>.\<close>

definition registered_names :: "string list" where
  "registered_names =
     [''get_stock_price'', ''get_stock_history'', ''get_financial_news'', ''get_exchange_rate'']"

section \<open>Sample data\<close>

text \<open>
  A concrete state of the services, on which the operations can be run. \<open>repr_4dp\<close>
  stands for the text of a float: what Python prints for a number with at most four
  decimals (trailing zeros dropped, one decimal at least).
\<close>

definition strip_zeros :: "string \<Rightarrow> string" where
  "strip_zeros s = rev (dropWhile (\<lambda>c. c = CHR ''0'') (rev s))"

definition repr_4dp :: "rat \<Rightarrow> string" where
  "repr_4dp x =
     (let a = \<bar>round_half_even (x * 10000)\<bar>;
          frac = strip_zeros (zero_pad 4 (a mod 10000))
      in (if x < 0 then ''-'' else []) @ show_digits (a div 10000) @ ''.'' @
         (if frac = [] then ''0'' else frac))"

text \<open>
  Stand-ins for the two numpy calls: rounding to the nearest decimal, a tie to the even
  one, and the text of a number with at most four decimals.
\<close>

definition sample_round :: "float64 \<Rightarrow> nat \<Rightarrow> float64" where
  "sample_round x n = (case x of Finite q \<Rightarrow> Finite (py_round q n) | _ \<Rightarrow> x)"

definition sample_str :: "float64 \<Rightarrow> string" where
  "sample_str x =
     (case x of Finite q \<Rightarrow> repr_4dp q | NaN \<Rightarrow> ''nan'' | PosInf \<Rightarrow> ''inf''
      | NegInf \<Rightarrow> ''-inf'')"

definition sample_quotes :: "quote list" where
  "sample_quotes =
     [\<lparr>Index = \<lparr>day = 2, month = 6, year = 2025\<rparr>,
       Close = Finite (2011 / 10), High = Finite 203, Low = Finite 200,
       Volume = Finite 1000\<rparr>,
      \<lparr>Index = \<lparr>day = 3, month = 6, year = 2025\<rparr>,
       Close = Finite (81301 / 400), High = Finite (20411 / 100), Low = Finite (20123 / 100),
       Volume = Finite 46381567\<rparr>]"

definition nan_volume_quotes :: "quote list" where
  "nan_volume_quotes =
     [\<lparr>Index = \<lparr>day = 3, month = 6, year = 2025\<rparr>,
       Close = Finite (81301 / 400), High = Finite (20411 / 100), Low = Finite (20123 / 100),
       Volume = NaN\<rparr>]"

definition sample_table :: "(string \<times> rat) list" where
  "sample_table = [(''USD'', 1), (''EUR'', 23 / 25), (''VND'', 25000)]"

definition sample_env :: env where
  "sample_env =
     \<lparr>yf_info = (\<lambda>t. Inr [(''symbol'', ''AAPL''), (''shortName'', ''Apple Inc.'')]),
      yf_get_tickers = (\<lambda>q. Inr []),
      yf_history = (\<lambda>t. Inr sample_quotes),
      requests_get_news = (\<lambda>u. Inr \<lparr>status_code = 200, json = Inr (Some [])\<rparr>),
      requests_get_fx = (\<lambda>u. Inr \<lparr>status_code = 200,
         json = Inr \<lparr>rates = Some sample_table, timestamp = Some 0\<rparr>\<rparr>),
      NEWSAPI_KEY = Some ''k1'',
      OPENEXCHANGE_API_KEY = Some ''k2'',
      str_float = repr_4dp,
      round_float64 = sample_round,
      str_float64 = sample_str,
      utc_strftime = (\<lambda>t. Inr ''01.01.1970 00:00''),
      iso_strftime = (\<lambda>s. Inl (Exception ''Invalid isoformat string'')),
      now_strftime = ''04.06.2025 10:00''\<rparr>"

text \<open>The same state with no service reachable, and one where the price frame has no rows.\<close>

definition offline_env :: env where
  "offline_env = sample_env
     \<lparr>yf_history := (\<lambda>t. Inl (Exception ''Connection refused'')),
      requests_get_news := (\<lambda>u. Inl (Exception ''Connection refused'')),
      requests_get_fx := (\<lambda>u. Inl (Exception ''Connection refused''))\<rparr>"

definition no_rows_env :: env where
  "no_rows_env = sample_env\<lparr>yf_history := (\<lambda>t. Inr [])\<rparr>"

text \<open>The same state where the price rows arrive and reading \<open>info\<close> raises.\<close>

definition no_info_env :: env where
  "no_info_env = sample_env\<lparr>yf_info := (\<lambda>t. Inl (Exception ''Too Many Requests''))\<rparr>"

text \<open>The same state where the only row has no volume.\<close>

definition nan_volume_env :: env where
  "nan_volume_env = sample_env\<lparr>yf_history := (\<lambda>t. Inr nan_volume_quotes)\<rparr>"

text \<open>Four callables that answer with fixed texts, to run the dispatch on.\<close>

definition sample_tools :: tools where
  "sample_tools =
     \<lparr>call_get_stock_price = (\<lambda>t. Inr ''price''),
      call_get_stock_history = (\<lambda>t. Inr ''history''),
      call_get_financial_news = (\<lambda>t. Inr ''news''),
      call_get_exchange_rate = (\<lambda>f t. Inr ''rate'')\<rparr>"

section \<open>Properties\<close>

subsection \<open>The failure marker\<close>

lemma startswith_cross_mark [simp]: "startswith (cross_mark @ s) cross_mark"
  by (simp add: startswith_def)

lemma price_message_no_mark: "\<not> startswith (price_message nm t d p h l v) cross_mark"
  by (simp add: startswith_def price_message_def cross_mark_def)

lemma history_message_no_mark: "\<not> startswith (history_message nm t hist) cross_mark"
  by (simp add: startswith_def history_message_def cross_mark_def)

lemma rate_message_no_mark: "\<not> startswith (rate_message a r b ts) cross_mark"
  by (simp add: startswith_def rate_message_def cross_mark_def)

lemma news_none_found_no_mark: "\<not> startswith (news_none_found nm) cross_mark"
  by (simp add: startswith_def news_none_found_def cross_mark_def info_mark_def)

lemma news_loop_append:
  "news_loop E result ns = result @ concat (map (news_line E) ns)"
  by (induction ns arbitrary: result) simp_all

lemma news_text_no_mark:
  assumes "news \<noteq> []"
  shows "\<not> startswith (news_loop E [] news @ news_footer E) cross_mark"
proof -
  from assms obtain n ns where "news = n # ns"
    by (cases news) auto
  then show ?thesis
    by (simp add: news_loop_append news_line_def Let_def startswith_def cross_mark_def)
qed

subsection \<open>The texts an operation can return\<close>

lemma get_stock_price_cases:
  assumes "get_stock_price E q = Inr s"
  shows "s = price_no_data \<or> (\<exists>m. s = price_error m)
         \<or> (\<exists>nm t d p h l v. s = price_message nm t d p h l v)"
  using assms
  by (auto simp: get_stock_price_def stock_price_try_def Let_def
      split: sum.splits exn.splits if_splits; blast)

lemma get_stock_history_cases:
  assumes "get_stock_history E q = Inr s"
  shows "s = history_no_data \<or> (\<exists>nm t hist. s = history_message nm t hist)"
  using assms
  by (auto simp: get_stock_history_def Let_def split: sum.splits if_splits)

lemma get_financial_news_cases:
  assumes "get_financial_news E q = Inr s"
  shows "(\<exists>n. s = news_status_error n) \<or> (\<exists>nm. s = news_none_found nm)
         \<or> (\<exists>news. news \<noteq> [] \<and> s = news_loop E [] news @ news_footer E)"
  using assms
  by (auto simp: get_financial_news_def Let_def split: sum.splits if_splits)

lemma get_exchange_rate_cases:
  assumes "get_exchange_rate E a b = Inr s"
  shows "(\<exists>n. s = fx_status_error n) \<or> s = fx_not_found
         \<or> (\<exists>r ts. s = rate_message (upper a) r (upper b) ts)"
  using assms
  by (auto simp: get_exchange_rate_def exchange_rate_try_def Let_def
      split: sum.splits if_splits)

subsection \<open>The operations on the sample data\<close>

lemma sample_find_ticker: "find_ticker sample_env q = ''AAPL''"
  by (simp add: find_ticker_def sample_env_def)

lemma offline_find_ticker: "find_ticker offline_env q = ''AAPL''"
  by (simp add: find_ticker_def sample_env_def offline_env_def)

lemma no_rows_find_ticker: "find_ticker no_rows_env q = ''AAPL''"
  by (simp add: find_ticker_def sample_env_def no_rows_env_def)

lemma no_info_find_ticker: "find_ticker no_info_env q = q"
  by (simp add: find_ticker_def no_info_env_def)

lemma sample_price:
  "get_stock_price sample_env ''Apple'' =
     Inr (price_message ''Apple Inc.'' ''AAPL'' ''03.06.2025'' ''203.25'' ''204.11'' ''201.23''
            ''46381567'')"
  by code_simp

lemma sample_history:
  "get_stock_history sample_env ''Apple'' =
     Inr (''Here is the price history for Apple Inc. (AAPL) for the last seven days:'' @
          newline @ newline @ ''* **03.06.2025: 203.25 USD**'' @ newline @
          ''* **02.06.2025: 201.10 USD**'')"
  by code_simp

lemma sample_rate:
  "get_exchange_rate sample_env ''eur'' ''usd'' =
     Inr (rate_message ''EUR'' ''1.087'' ''USD'' ''01.01.1970 00:00'')"
  "get_exchange_rate sample_env ''EUR'' ''USD'' =
     Inr (rate_message ''EUR'' ''1.087'' ''USD'' ''01.01.1970 00:00'')"
  by code_simp+

subsection \<open>Exceptions that leave an operation\<close>

text \<open>
  C1. The claim is that no client operation ever raises. \<open>get_stock_price\<close> keeps it:
  its whole body is inside \<open>try\<close>. The other three do not: with no service reachable,
  the exception of the first external call leaves \<open>get_stock_history\<close>,
  \<open>get_financial_news\<close> and \<open>get_exchange_rate\<close>, while \<open>get_stock_price\<close> turns the
  same exception into its failure text.
\<close>

theorem client_operations_raise:
  "get_stock_history offline_env ''AAPL'' = Inl (Exception ''Connection refused'')
   \<and> get_financial_news offline_env ''AAPL'' = Inl (Exception ''Connection refused'')
   \<and> get_exchange_rate offline_env ''EUR'' ''USD'' = Inl (Exception ''Connection refused'')
   \<and> get_stock_price offline_env ''AAPL'' = Inr (price_error ''Connection refused'')"
proof -
  have h: "yf_history offline_env ''AAPL'' = Inl (Exception ''Connection refused'')"
    by (simp add: offline_env_def)
  have n: "requests_get_news offline_env u = Inl (Exception ''Connection refused'')" for u
    by (simp add: offline_env_def)
  have f: "requests_get_fx offline_env u = Inl (Exception ''Connection refused'')" for u
    by (simp add: offline_env_def)
  show ?thesis
    by (simp add: get_stock_history_def get_stock_price_def stock_price_try_def
        get_financial_news_def get_exchange_rate_def offline_find_ticker h n f)
qed

lemma get_stock_history_propagates:
  assumes "yf_history E (find_ticker E q) = Inl e"
  shows "get_stock_history E q = Inl e \<and> (\<exists>s. get_stock_price E q = Inr s)"
  using assms
  by (cases e) (simp add: get_stock_history_def get_stock_price_def stock_price_try_def)

subsection \<open>The cache of the exchange rate\<close>

lemma fst_fx_cache_miss:
  "fst (fx_cache_miss cache now E a b) = get_exchange_rate E a b"
  by (simp add: fx_cache_miss_def split: sum.splits)

lemma map_of_after_call:
  assumes "(a2, b2) \<noteq> (a1, b1)"
  shows "map_of (snd (get_exchange_rate_cached cache now E a1 b1)) (a2, b2) =
         map_of cache (a2, b2)"
  using assms
  by (auto simp: get_exchange_rate_cached_def fx_cache_miss_def
      split: option.splits sum.splits)

lemma cache_after_first_call:
  assumes "map_of cache (a, b) = None" and "get_exchange_rate E a b = Inr v"
  shows "snd (get_exchange_rate_cached cache now E a b) = ((a, b), (now, v)) # cache"
  using assms by (simp add: get_exchange_rate_cached_def fx_cache_miss_def)

text \<open>
  C2. The claim is that the cache does not key on the currency pair, so that a call with
  another pair inside the window may get the text cached for the earlier pair. In the
  cache as the specification's resource model describes it (keyed by the arguments), it
  cannot: after a call for one pair, a call for a different pair that has no entry of its
  own returns what the function body computes for that pair; and a repeated call for the
  same pair inside the window returns the stored text and leaves the cache as it is.
\<close>

theorem fx_cache_keyed:
  "((from2, to2) \<noteq> (from1, to1) \<and> map_of cache (from2, to2) = None \<longrightarrow>
      fst (get_exchange_rate_cached
             (snd (get_exchange_rate_cached cache now1 E1 from1 to1)) now2 E2 from2 to2)
        = get_exchange_rate E2 from2 to2)
   \<and> (map_of cache (from1, to1) = None \<and> get_exchange_rate E1 from1 to1 = Inr v
        \<and> now2 < now1 + fx_ttl \<longrightarrow>
      get_exchange_rate_cached
        (snd (get_exchange_rate_cached cache now1 E1 from1 to1)) now2 E2 from1 to1
        = (Inr v, snd (get_exchange_rate_cached cache now1 E1 from1 to1)))"
proof (intro conjI impI)
  assume a: "(from2, to2) \<noteq> (from1, to1) \<and> map_of cache (from2, to2) = None"
  then have "map_of (snd (get_exchange_rate_cached cache now1 E1 from1 to1)) (from2, to2) = None"
    by (simp add: map_of_after_call)
  then show "fst (get_exchange_rate_cached
             (snd (get_exchange_rate_cached cache now1 E1 from1 to1)) now2 E2 from2 to2)
        = get_exchange_rate E2 from2 to2"
    by (simp add: get_exchange_rate_cached_def fst_fx_cache_miss)
next
  assume b: "map_of cache (from1, to1) = None \<and> get_exchange_rate E1 from1 to1 = Inr v
        \<and> now2 < now1 + fx_ttl"
  then have "snd (get_exchange_rate_cached cache now1 E1 from1 to1)
               = ((from1, to1), (now1, v)) # cache"
    by (simp add: cache_after_first_call)
  with b show "get_exchange_rate_cached
        (snd (get_exchange_rate_cached cache now1 E1 from1 to1)) now2 E2 from1 to1
        = (Inr v, snd (get_exchange_rate_cached cache now1 E1 from1 to1))"
    by (simp add: get_exchange_rate_cached_def)
qed

theorem fx_cache_keyed_counterexample:
  "fst (get_exchange_rate_cached [] 0 sample_env ''EUR'' ''USD'')
     = Inr (rate_message ''EUR'' ''1.087'' ''USD'' ''01.01.1970 00:00'')
   \<and> fst (get_exchange_rate_cached
            (snd (get_exchange_rate_cached [] 0 sample_env ''EUR'' ''USD''))
            10 sample_env ''USD'' ''VND'')
     = Inr (rate_message ''USD'' ''25000.0'' ''VND'' ''01.01.1970 00:00'')
   \<and> rate_message ''USD'' ''25000.0'' ''VND'' ''01.01.1970 00:00''
     \<noteq> rate_message ''EUR'' ''1.087'' ''USD'' ''01.01.1970 00:00''"
  by code_simp

theorem fx_cache_keyed_witness:
  "fst (get_exchange_rate_cached
          (snd (get_exchange_rate_cached [] 0 sample_env ''EUR'' ''USD''))
          10 sample_env ''USD'' ''VND'')
     = get_exchange_rate sample_env ''USD'' ''VND''
   \<and> get_exchange_rate_cached
        (snd (get_exchange_rate_cached [] 0 sample_env ''EUR'' ''USD''))
        10 offline_env ''EUR'' ''USD''
     = (Inr (rate_message ''EUR'' ''1.087'' ''USD'' ''01.01.1970 00:00''),
        snd (get_exchange_rate_cached [] 0 sample_env ''EUR'' ''USD''))"
  using fx_cache_keyed [of "''USD''" "''VND''" "''EUR''" "''USD''" "[]" 0 sample_env 10
      sample_env "rate_message ''EUR'' ''1.087'' ''USD'' ''01.01.1970 00:00''"]
    fx_cache_keyed [of "''USD''" "''VND''" "''EUR''" "''USD''" "[]" 0 sample_env 10
      offline_env "rate_message ''EUR'' ''1.087'' ''USD'' ''01.01.1970 00:00''"]
  by (simp add: sample_rate fx_ttl_def)

subsection \<open>Rounding to four decimals\<close>

lemma round_half_even_error: "\<bar>of_int (round_half_even x) - x\<bar> \<le> 1 / 2"
proof -
  have "of_int \<lfloor>x\<rfloor> \<le> x" and "x < of_int \<lfloor>x\<rfloor> + 1"
    by linarith+
  then show ?thesis
    unfolding round_half_even_def Let_def by (auto simp: abs_le_iff)
qed

lemma py_round_error: "\<bar>py_round x 4 - x\<bar> \<le> 1 / 20000"
proof -
  have eq: "py_round x 4 - x = (of_int (round_half_even (x * 10 ^ 4)) - x * 10 ^ 4) / 10 ^ 4"
    by (simp add: py_round_def field_simps)
  have "\<bar>py_round x 4 - x\<bar> = \<bar>of_int (round_half_even (x * 10 ^ 4)) - x * 10 ^ 4\<bar> / 10 ^ 4"
    by (simp only: eq abs_divide) simp
  also have "\<dots> \<le> (1 / 2) / 10 ^ 4"
    by (rule divide_right_mono [OF round_half_even_error]) simp
  finally show ?thesis by simp
qed

lemma rounded_product_bound:
  fixes q :: rat
  assumes "q \<noteq> 0"
  shows "\<bar>py_round q 4 * py_round (1 / q) 4 - 1\<bar> \<le> (\<bar>q\<bar> + \<bar>1 / q\<bar>) / 20000 + 1 / 400000000"
proof -
  define e1 where "e1 = py_round q 4 - q"
  define e2 where "e2 = py_round (1 / q) 4 - 1 / q"
  have b1: "\<bar>e1\<bar> \<le> 1 / 20000" and b2: "\<bar>e2\<bar> \<le> 1 / 20000"
    unfolding e1_def e2_def by (rule py_round_error)+
  have "py_round q 4 * py_round (1 / q) 4 - 1 = (q + e1) * (1 / q + e2) - 1"
    by (simp add: e1_def e2_def)
  also have "\<dots> = q * e2 + (1 / q) * e1 + e1 * e2"
    using assms by (simp add: field_simps)
  finally have "\<bar>py_round q 4 * py_round (1 / q) 4 - 1\<bar> = \<bar>q * e2 + (1 / q) * e1 + e1 * e2\<bar>"
    by simp
  also have "\<dots> \<le> \<bar>q * e2\<bar> + \<bar>(1 / q) * e1\<bar> + \<bar>e1 * e2\<bar>"
    by linarith
  also have "\<dots> = \<bar>q\<bar> * \<bar>e2\<bar> + \<bar>1 / q\<bar> * \<bar>e1\<bar> + \<bar>e1\<bar> * \<bar>e2\<bar>"
    by (simp only: abs_mult)
  also have "\<dots> \<le> \<bar>q\<bar> * (1 / 20000) + \<bar>1 / q\<bar> * (1 / 20000) + (1 / 20000) * (1 / 20000)"
    by (intro add_mono mult_left_mono mult_mono b1 b2) simp_all
  also have "\<dots> = (\<bar>q\<bar> + \<bar>1 / q\<bar>) / 20000 + 1 / 400000000"
    by (simp add: algebra_simps)
  finally show ?thesis .
qed

text \<open>
  C3. The claim is that the two reported rates of a pair multiply to 1 within the
  four-decimal rounding tolerance. With rates 1 and 25000 in the table, the rate one way
  is 25000 and the rate the other way, 0.00004, is rounded to 0: the product is 0. What
  holds (in exact arithmetic) for two codes present with non-zero rates is a bound that
  grows with the ratio \<open>q\<close> of the two table entries: the product of the two rounded
  rates differs from 1 by at most \<open>(|q| + |1/q|) / 20000 + 1 / 400000000\<close>.
\<close>

theorem rate_product_bound:
  assumes "map_of table (upper a) = Some ra" and "map_of table (upper b) = Some rb"
    and "ra \<noteq> 0" and "rb \<noteq> 0"
  shows "\<exists>r1 r2. compute_rate table a b = Inr r1 \<and> compute_rate table b a = Inr r2 \<and>
           \<bar>r1 * r2 - 1\<bar> \<le> (\<bar>rb / ra\<bar> + \<bar>ra / rb\<bar>) / 20000 + 1 / 400000000"
proof -
  have 1: "compute_rate table a b = Inr (py_round (rb / ra) 4)"
    using assms by (simp add: compute_rate_def dict_index_def py_div_def)
  have 2: "compute_rate table b a = Inr (py_round (1 / (rb / ra)) 4)"
    using assms by (simp add: compute_rate_def dict_index_def py_div_def)
  have "rb / ra \<noteq> 0" using assms by simp
  from rounded_product_bound [OF this] 1 2 show ?thesis by simp
qed

theorem rate_product_counterexample:
  "map_of sample_table (upper ''USD'') = Some 1
   \<and> map_of sample_table (upper ''VND'') = Some 25000
   \<and> compute_rate sample_table ''USD'' ''VND'' = Inr 25000
   \<and> compute_rate sample_table ''VND'' ''USD'' = Inr 0
   \<and> \<not> \<bar>(25000 :: rat) * 0 - 1\<bar> \<le> 1 / 10000"
  by code_simp

theorem rate_product_bound_witness:
  "\<exists>r1 r2. compute_rate sample_table ''eur'' ''usd'' = Inr r1 \<and>
      compute_rate sample_table ''usd'' ''eur'' = Inr r2 \<and>
      \<bar>r1 * r2 - 1\<bar> \<le> (\<bar>1 / (23 / 25)\<bar> + \<bar>(23 / 25) / 1\<bar>) / 20000 + 1 / 400000000"
proof -
  have a: "map_of sample_table (upper ''eur'') = Some (23 / 25)"
    by code_simp
  have b: "map_of sample_table (upper ''usd'') = Some 1"
    by code_simp
  from rate_product_bound [OF a b] show ?thesis
    by simp
qed

subsection \<open>The price text\<close>

lemma sublist_in_right: "sublist xs ys \<Longrightarrow> sublist xs (zs @ ys)"
  by (simp add: sublist_append)

lemma price_message_ticker: "sublist t (price_message nm t d p h l v)"
  unfolding price_message_def by (rule sublist_append_rightI sublist_in_right)+

lemma price_message_date: "sublist d (price_message nm t d p h l v)"
  unfolding price_message_def by (rule sublist_append_rightI sublist_in_right)+

lemma price_message_close:
  "sublist (''Closing price: **'' @ p @ '' USD**'') (price_message nm t d p h l v)"
  unfolding sublist_def price_message_def
  by (rule exI [of _ "''**'' @ nm @ '' ('' @ t @ '') as of '' @ d @ ''**'' @ newline"],
      rule exI [of _ "newline @ ''High: '' @ h @ '' USD, Low: '' @ l @ '' USD, Volume: '' @ v @
        newline @ newline @ price_footer d"]) simp

lemma price_message_footer: "suffix (price_footer d) (price_message nm t d p h l v)"
  unfolding price_message_def by (rule suffixI [OF refl] suffix_appendI)+

text \<open>
  C4. The claim is made for every ticker whose fetched history is not empty. After the
  rows, inside the same \<open>try\<close>, the function converts the last volume with \<open>int\<close> and
  reads \<open>stock.info\<close>: when either raises, the text returned is the failure text of the
  \<open>except\<close> branch with the exception's message, which names neither the ticker nor a
  date. When the history is not empty, the last volume converts and the read of \<open>info\<close>
  returns, the text contains the resolved ticker, the date of the last row and the line
  with the text of \<open>round(close, 2)\<close> for the last row's close, and ends with the source
  footer carrying the same date.
\<close>

theorem get_stock_price_nonempty:
  assumes "yf_history E (find_ticker E q) = Inr hist" and "hist \<noteq> []"
  shows "(py_int (Volume (last hist)) = Inr v \<and> yf_info E (find_ticker E q) = Inr info \<longrightarrow>
            (\<exists>s. get_stock_price E q = Inr s
               \<and> sublist (find_ticker E q) s
               \<and> sublist (strftime_dmy (Index (last hist))) s
               \<and> sublist (''Closing price: **'' @
                    str_float64 E (round_float64 E (Close (last hist)) 2) @ '' USD**'') s
               \<and> suffix (price_footer (strftime_dmy (Index (last hist)))) s))
       \<and> (py_int (Volume (last hist)) = Inl (Exception m) \<longrightarrow>
            get_stock_price E q = Inr (price_error m))
       \<and> (py_int (Volume (last hist)) = Inr v
            \<and> yf_info E (find_ticker E q) = Inl (Exception m) \<longrightarrow>
            get_stock_price E q = Inr (price_error m))"
proof (intro conjI impI)
  assume a: "py_int (Volume (last hist)) = Inr v \<and> yf_info E (find_ticker E q) = Inr info"
  let ?s = "price_message (dict_get info ''shortName'' (find_ticker E q)) (find_ticker E q)
              (strftime_dmy (Index (last hist)))
              (str_float64 E (round_float64 E (Close (last hist)) 2))
              (str_float64 E (round_float64 E (High (last hist)) 2))
              (str_float64 E (round_float64 E (Low (last hist)) 2))
              (show_int v)"
  have "get_stock_price E q = Inr ?s"
    using assms a by (simp add: get_stock_price_def stock_price_try_def Let_def)
  moreover have "sublist (find_ticker E q) ?s"
    by (rule price_message_ticker)
  moreover have "sublist (strftime_dmy (Index (last hist))) ?s"
    by (rule price_message_date)
  moreover have "sublist (''Closing price: **'' @
      str_float64 E (round_float64 E (Close (last hist)) 2) @ '' USD**'') ?s"
    by (rule price_message_close)
  moreover have "suffix (price_footer (strftime_dmy (Index (last hist)))) ?s"
    by (rule price_message_footer)
  ultimately show "\<exists>s. get_stock_price E q = Inr s
               \<and> sublist (find_ticker E q) s
               \<and> sublist (strftime_dmy (Index (last hist))) s
               \<and> sublist (''Closing price: **'' @
                    str_float64 E (round_float64 E (Close (last hist)) 2) @ '' USD**'') s
               \<and> suffix (price_footer (strftime_dmy (Index (last hist)))) s"
    by (intro exI conjI)
next
  assume "py_int (Volume (last hist)) = Inl (Exception m)"
  then show "get_stock_price E q = Inr (price_error m)"
    using assms by (simp add: get_stock_price_def stock_price_try_def Let_def)
next
  assume "py_int (Volume (last hist)) = Inr v
            \<and> yf_info E (find_ticker E q) = Inl (Exception m)"
  then show "get_stock_price E q = Inr (price_error m)"
    using assms by (simp add: get_stock_price_def stock_price_try_def Let_def)
qed

lemma price_error_names_nothing:
  "\<not> sublist ''AAPL'' (price_error ''Too Many Requests'')"
  "\<not> sublist ''03.06.2025'' (price_error ''Too Many Requests'')"
  by code_simp+

lemma sample_volume: "py_int (Volume (last sample_quotes)) = Inr 46381567"
  by code_simp

lemma nan_volume:
  "py_int (Volume (last nan_volume_quotes)) = Inl (Exception ''cannot convert float NaN to integer'')"
  by code_simp

lemma sample_quotes_rows: "sample_quotes \<noteq> []" "nan_volume_quotes \<noteq> []"
  by (simp_all add: sample_quotes_def nan_volume_quotes_def)

lemma no_info_price:
  "get_stock_price no_info_env ''AAPL'' = Inr (price_error ''Too Many Requests'')"
proof -
  have h: "yf_history no_info_env t = Inr sample_quotes" for t
    by (simp add: no_info_env_def sample_env_def)
  have i: "yf_info no_info_env t = Inl (Exception ''Too Many Requests'')" for t
    by (simp add: no_info_env_def)
  show ?thesis
    using sample_quotes_rows(1)
    by (simp add: get_stock_price_def stock_price_try_def no_info_find_ticker h i Let_def
        sample_volume)
qed

theorem get_stock_price_counterexample:
  "yf_history no_info_env (find_ticker no_info_env ''AAPL'') = Inr sample_quotes
   \<and> sample_quotes \<noteq> []
   \<and> get_stock_price no_info_env ''AAPL'' = Inr (price_error ''Too Many Requests'')
   \<and> \<not> sublist ''AAPL'' (price_error ''Too Many Requests'')
   \<and> \<not> sublist ''03.06.2025'' (price_error ''Too Many Requests'')"
proof -
  have h: "yf_history no_info_env t = Inr sample_quotes" for t
    by (simp add: no_info_env_def sample_env_def)
  show ?thesis
    using sample_quotes_rows(1) price_error_names_nothing no_info_price h
    by simp
qed

theorem get_stock_price_nonempty_witness:
  "(\<exists>s. get_stock_price sample_env ''Apple'' = Inr s
      \<and> sublist ''AAPL'' s \<and> sublist ''03.06.2025'' s
      \<and> sublist ''Closing price: **203.25 USD**'' s
      \<and> suffix (price_footer ''03.06.2025'') s)
   \<and> get_stock_price nan_volume_env ''Apple'' =
       Inr (price_error ''cannot convert float NaN to integer'')
   \<and> get_stock_price no_info_env ''AAPL'' = Inr (price_error ''Too Many Requests'')"
proof -
  have h: "yf_history sample_env (find_ticker sample_env ''Apple'') = Inr sample_quotes"
    by (simp add: sample_env_def)
  have i: "yf_info sample_env t =
             Inr [(''symbol'', ''AAPL''), (''shortName'', ''Apple Inc.'')]" for t
    by (simp add: sample_env_def)
  have d: "strftime_dmy (Index (last sample_quotes)) = ''03.06.2025''"
    by code_simp
  have c: "str_float64 sample_env (round_float64 sample_env (Close (last sample_quotes)) 2)
             = ''203.25''"
    by code_simp
  have 1: "\<exists>s. get_stock_price sample_env ''Apple'' = Inr s
      \<and> sublist ''AAPL'' s \<and> sublist ''03.06.2025'' s
      \<and> sublist ''Closing price: **203.25 USD**'' s
      \<and> suffix (price_footer ''03.06.2025'') s"
    using get_stock_price_nonempty [OF h sample_quotes_rows(1), of 46381567
        "[(''symbol'', ''AAPL''), (''shortName'', ''Apple Inc.'')]" "[]"]
    by (simp add: sample_find_ticker sample_volume i d c)
  have hn: "yf_history nan_volume_env (find_ticker nan_volume_env ''Apple'')
              = Inr nan_volume_quotes"
    by (simp add: nan_volume_env_def)
  have 2: "get_stock_price nan_volume_env ''Apple'' =
       Inr (price_error ''cannot convert float NaN to integer'')"
    using get_stock_price_nonempty [OF hn sample_quotes_rows(2), of 0 "[]"
        "''cannot convert float NaN to integer''"]
    by (simp add: nan_volume)
  have hi: "yf_history no_info_env (find_ticker no_info_env ''AAPL'') = Inr sample_quotes"
    by (simp add: no_info_env_def sample_env_def)
  have ii: "yf_info no_info_env t = Inl (Exception ''Too Many Requests'')" for t
    by (simp add: no_info_env_def)
  have 3: "get_stock_price no_info_env ''AAPL'' = Inr (price_error ''Too Many Requests'')"
    using get_stock_price_nonempty [OF hi sample_quotes_rows(1), of 46381567 "[]"
        "''Too Many Requests''"]
    by (simp add: sample_volume ii)
  from 1 2 3 show ?thesis by simp
qed

subsection \<open>Empty price data\<close>

lemma no_data_facts:
  "price_no_data \<noteq> history_no_data"
  "sublist ''Please check the ticker symbol'' price_no_data"
  "\<not> sublist ''check'' history_no_data"
  "\<not> sublist SUPPORT_PHONE_NUMBER price_no_data"
  "\<not> sublist SUPPORT_PHONE_NUMBER history_no_data"
  by code_simp+

text \<open>
  C5. When the fetched history is empty, \<open>get_stock_price\<close> and \<open>get_stock_history\<close>
  each return one fixed text (the same for every query and every state of the services)
  and do not raise; the two texts differ, both begin with the failure marker, only the
  one of \<open>get_stock_price\<close> asks to check the ticker symbol, and neither contains the
  support number.
\<close>

theorem empty_history_messages:
  assumes "yf_history E (find_ticker E q) = Inr []"
  shows "get_stock_price E q = Inr price_no_data
       \<and> get_stock_history E q = Inr history_no_data
       \<and> price_no_data \<noteq> history_no_data
       \<and> startswith price_no_data cross_mark
       \<and> startswith history_no_data cross_mark
       \<and> sublist ''Please check the ticker symbol'' price_no_data
       \<and> \<not> sublist ''check'' history_no_data
       \<and> \<not> sublist SUPPORT_PHONE_NUMBER price_no_data
       \<and> \<not> sublist SUPPORT_PHONE_NUMBER history_no_data"
proof -
  have p: "get_stock_price E q = Inr price_no_data"
    using assms by (simp add: get_stock_price_def stock_price_try_def)
  have h: "get_stock_history E q = Inr history_no_data"
    using assms by (simp add: get_stock_history_def)
  have m: "startswith price_no_data cross_mark" "startswith history_no_data cross_mark"
    by (simp_all add: price_no_data_def history_no_data_def)
  show ?thesis
    using p h m no_data_facts by simp
qed

theorem empty_history_messages_witness:
  "yf_history no_rows_env (find_ticker no_rows_env ''Apple'') = Inr []
   \<and> get_stock_price no_rows_env ''Apple'' = Inr price_no_data
   \<and> get_stock_history no_rows_env ''Apple'' = Inr history_no_data"
proof -
  have "yf_history no_rows_env (find_ticker no_rows_env ''Apple'') = Inr []"
    by (simp add: no_rows_env_def)
  from this empty_history_messages [OF this] show ?thesis by simp
qed

subsection \<open>A code that is not in the table\<close>

text \<open>
  C6. When the rate service answers with status 200 and a JSON body, and the table has
  no entry for the upper-cased code of at least one side, \<open>get_exchange_rate\<close> returns
  the one text \<open>fx_not_found\<close>, whichever side is missing.
\<close>

theorem missing_code_not_found:
  assumes "requests_get_fx E (fx_url (OPENEXCHANGE_API_KEY E)) = Inr response"
    and "status_code response = 200"
    and "json response = Inr data"
    and "map_of (get_or (rates data) []) (upper from_currency) = None
         \<or> map_of (get_or (rates data) []) (upper to_currency) = None"
  shows "get_exchange_rate E from_currency to_currency = Inr fx_not_found"
proof -
  have "\<exists>e. compute_rate (get_or (rates data) []) from_currency to_currency = Inl e"
    using assms(4)
    by (auto simp: compute_rate_def dict_index_def split: option.splits sum.splits)
  then show ?thesis
    using assms(1-3) by (auto simp: get_exchange_rate_def exchange_rate_try_def)
qed

theorem missing_code_not_found_witness:
  "get_exchange_rate sample_env ''XXX'' ''USD'' = Inr fx_not_found
   \<and> get_exchange_rate sample_env ''USD'' ''XXX'' = Inr fx_not_found
   \<and> get_exchange_rate sample_env ''XXX'' ''YYY'' = Inr fx_not_found"
proof -
  let ?d = "\<lparr>rates = Some sample_table, timestamp = Some 0\<rparr>"
  let ?r = "\<lparr>status_code = 200, json = Inr ?d\<rparr>"
  have 1: "requests_get_fx sample_env (fx_url (OPENEXCHANGE_API_KEY sample_env)) = Inr ?r"
    by (simp add: sample_env_def)
  have 2: "status_code ?r = 200" by simp
  have 3: "json ?r = Inr ?d" by simp
  have x: "map_of (get_or (rates ?d) []) (upper ''XXX'') = None"
    by code_simp
  show ?thesis
    using missing_code_not_found [OF 1 2 3, of "''XXX''" "''USD''"]
      missing_code_not_found [OF 1 2 3, of "''USD''" "''XXX''"]
      missing_code_not_found [OF 1 2 3, of "''XXX''" "''YYY''"] x
    by simp
qed

subsection \<open>Success and failure by the start of the text\<close>

lemma failure_texts_marked:
  "startswith price_no_data cross_mark"
  "startswith (price_error m) cross_mark"
  "startswith history_no_data cross_mark"
  "startswith (news_status_error n) cross_mark"
  "startswith (fx_status_error n) cross_mark"
  "startswith fx_not_found cross_mark"
  by (simp_all add: price_no_data_def price_error_def history_no_data_def
      news_status_error_def fx_status_error_def fx_not_found_def)

text \<open>
  C7. Every text returned by one of the four client operations either begins with the
  failure marker, and is then one of the operation's failure texts, or does not begin
  with it, and is then one of the operation's other payloads: the price text, the
  history text, the list of news lines with its footer or the note that no news was
  found, the rate text. So the test \<open>startswith\<close> on the marker, which the caller
  applies to the history result, separates the two kinds.
\<close>

theorem failure_marker_decides:
  "(get_stock_price E q = Inr s \<longrightarrow>
      (startswith s cross_mark \<and> (s = price_no_data \<or> (\<exists>m. s = price_error m)))
      \<or> (\<not> startswith s cross_mark \<and> (\<exists>nm t d p h l v. s = price_message nm t d p h l v)))
   \<and> (get_stock_history E q = Inr s \<longrightarrow>
      (startswith s cross_mark \<and> s = history_no_data)
      \<or> (\<not> startswith s cross_mark \<and> (\<exists>nm t hist. s = history_message nm t hist)))
   \<and> (get_financial_news E q = Inr s \<longrightarrow>
      (startswith s cross_mark \<and> (\<exists>n. s = news_status_error n))
      \<or> (\<not> startswith s cross_mark \<and>
          ((\<exists>nm. s = news_none_found nm)
           \<or> (\<exists>news. news \<noteq> [] \<and> s = news_loop E [] news @ news_footer E))))
   \<and> (get_exchange_rate E a b = Inr s \<longrightarrow>
      (startswith s cross_mark \<and> ((\<exists>n. s = fx_status_error n) \<or> s = fx_not_found))
      \<or> (\<not> startswith s cross_mark \<and> (\<exists>r ts. s = rate_message (upper a) r (upper b) ts)))"
proof (intro conjI impI)
  assume "get_stock_price E q = Inr s"
  from get_stock_price_cases [OF this]
  show "(startswith s cross_mark \<and> (s = price_no_data \<or> (\<exists>m. s = price_error m)))
      \<or> (\<not> startswith s cross_mark \<and> (\<exists>nm t d p h l v. s = price_message nm t d p h l v))"
    using failure_texts_marked price_message_no_mark by blast
next
  assume "get_stock_history E q = Inr s"
  from get_stock_history_cases [OF this]
  show "(startswith s cross_mark \<and> s = history_no_data)
      \<or> (\<not> startswith s cross_mark \<and> (\<exists>nm t hist. s = history_message nm t hist))"
    using failure_texts_marked history_message_no_mark by blast
next
  assume "get_financial_news E q = Inr s"
  from get_financial_news_cases [OF this]
  show "(startswith s cross_mark \<and> (\<exists>n. s = news_status_error n))
      \<or> (\<not> startswith s cross_mark \<and>
          ((\<exists>nm. s = news_none_found nm)
           \<or> (\<exists>news. news \<noteq> [] \<and> s = news_loop E [] news @ news_footer E)))"
    using failure_texts_marked news_none_found_no_mark news_text_no_mark by blast
next
  assume "get_exchange_rate E a b = Inr s"
  from get_exchange_rate_cases [OF this]
  show "(startswith s cross_mark \<and> ((\<exists>n. s = fx_status_error n) \<or> s = fx_not_found))
      \<or> (\<not> startswith s cross_mark \<and> (\<exists>r ts. s = rate_message (upper a) r (upper b) ts))"
    using failure_texts_marked rate_message_no_mark by blast
qed

theorem failure_marker_decides_witness:
  "get_stock_price sample_env ''Apple'' =
     Inr (price_message ''Apple Inc.'' ''AAPL'' ''03.06.2025'' ''203.25'' ''204.11'' ''201.23''
            ''46381567'')
   \<and> \<not> startswith (price_message ''Apple Inc.'' ''AAPL'' ''03.06.2025'' ''203.25'' ''204.11''
            ''201.23'' ''46381567'') cross_mark
   \<and> get_stock_history no_rows_env ''Apple'' = Inr history_no_data
   \<and> startswith history_no_data cross_mark
   \<and> get_financial_news sample_env ''Apple'' = Inr (news_none_found ''Apple Inc.'')
   \<and> \<not> startswith (news_none_found ''Apple Inc.'') cross_mark
   \<and> get_exchange_rate sample_env ''eur'' ''usd'' =
       Inr (rate_message ''EUR'' ''1.087'' ''USD'' ''01.01.1970 00:00'')
   \<and> \<not> startswith (rate_message ''EUR'' ''1.087'' ''USD'' ''01.01.1970 00:00'') cross_mark"
proof -
  have h: "get_stock_history no_rows_env ''Apple'' = Inr history_no_data"
    by (simp add: get_stock_history_def no_rows_find_ticker) (simp add: no_rows_env_def)
  have n: "get_financial_news sample_env ''Apple'' = Inr (news_none_found ''Apple Inc.'')"
    by code_simp
  have 1: "\<not> startswith (news_none_found ''Apple Inc.'') cross_mark"
    using failure_marker_decides [of sample_env "''Apple''" "news_none_found ''Apple Inc.''"] n
      failure_texts_marked(4)
    by (auto simp: news_none_found_no_mark)
  show ?thesis
    using 1 h n sample_price sample_rate(1) failure_texts_marked(3) price_message_no_mark
      rate_message_no_mark
    by simp
qed

subsection \<open>An unknown function name\<close>

text \<open>
  C8. For a function name that is none of the four registered names, the dispatch
  raises nothing and appends to the transcript one function-result message, tagged with
  the requested name, whose content is exactly the text \<open>Unknown function call.\<close>
\<close>

theorem unknown_function_call:
  assumes "function_name \<notin> set registered_names"
  shows "dispatch T messages function_name arguments =
     Inr (messages @
       [\<lparr>role = ''function'', name = Some function_name, content = ''Unknown function call.''\<rparr>])"
  using assms by (simp add: dispatch_def function_response_of_def registered_names_def)

theorem unknown_function_call_witness:
  "''get_weather'' \<notin> set registered_names
   \<and> dispatch sample_tools [\<lparr>role = ''user'', name = None, content = ''Will it rain?''\<rparr>]
        ''get_weather'' [(''city'', ''Berlin'')] =
     Inr [\<lparr>role = ''user'', name = None, content = ''Will it rain?''\<rparr>,
          \<lparr>role = ''function'', name = Some ''get_weather'',
           content = ''Unknown function call.''\<rparr>]"
proof -
  have "''get_weather'' \<notin> set registered_names"
    by (simp add: registered_names_def)
  from this unknown_function_call [OF this] show ?thesis
    by simp
qed

subsection \<open>The downloaded chat history\<close>

lemma write_messages_concat:
  "write_messages out msgs =
     out @ concat (map chat_line (filter is_chat_message msgs))"
  by (induction msgs arbitrary: out)
     (simp_all add: is_chat_message_def chat_line_def)

text \<open>
  C9. The downloaded chat history is the concatenation, in transcript order, of one
  entry \<open>User: <content>\<close> per user message and one entry \<open>Assistant: <content>\<close> per
  assistant message, each ended by a newline, and of nothing else: messages of any other
  role (the system message, function results) contribute nothing.
\<close>

theorem download_chat_history_lines:
  "download_chat_history messages =
     concat (map chat_line (filter is_chat_message messages))
   \<and> download_chat_history (filter (\<lambda>m. \<not> is_chat_message m) messages) = []"
  by (simp add: download_chat_history_def write_messages_concat)

theorem download_chat_history_lines_witness:
  "download_chat_history
     [\<lparr>role = ''system'', name = None, content = ''You are a helpful financial assistant.''\<rparr>,
      \<lparr>role = ''user'', name = None, content = ''price of AAPL?''\<rparr>,
      \<lparr>role = ''function'', name = Some ''get_stock_price'', content = ''data''\<rparr>,
      \<lparr>role = ''assistant'', name = None, content = ''It is 1 USD.''\<rparr>]
   = ''User: price of AAPL?'' @ newline @ ''Assistant: It is 1 USD.'' @ newline"
  using download_chat_history_lines
    [of "[\<lparr>role = ''system'', name = None, content = ''You are a helpful financial assistant.''\<rparr>,
      \<lparr>role = ''user'', name = None, content = ''price of AAPL?''\<rparr>,
      \<lparr>role = ''function'', name = Some ''get_stock_price'', content = ''data''\<rparr>,
      \<lparr>role = ''assistant'', name = None, content = ''It is 1 USD.''\<rparr>]"]
  by (simp add: is_chat_message_def chat_line_def)

subsection \<open>Upper and lower case in currency codes\<close>

lemma upper_char_fixed:
  "\<not> (97 \<le> (of_char d :: nat) \<and> (of_char d :: nat) \<le> 122) \<Longrightarrow> upper_char d = d"
  by (auto simp: upper_char_def)

lemma upper_char_idem: "upper_char (upper_char c) = upper_char c"
proof (cases "97 \<le> (of_char c :: nat) \<and> (of_char c :: nat) \<le> 122")
  case True
  then have u: "upper_char c = char_of ((of_char c :: nat) - 32)"
    by (simp add: upper_char_def)
  from True have "((of_char c :: nat) - 32) mod 256 = of_char c - 32"
    by (intro mod_less) arith
  then have "(of_char (upper_char c) :: nat) = of_char c - 32"
    by (simp add: u of_char_of)
  with True have "\<not> (97 \<le> (of_char (upper_char c) :: nat) \<and> (of_char (upper_char c) :: nat) \<le> 122)"
    by arith
  then show ?thesis
    by (rule upper_char_fixed)
next
  case False
  then have "upper_char c = c"
    by (rule upper_char_fixed)
  then show ?thesis by simp
qed

lemma upper_idem: "upper (upper s) = upper s"
  by (simp add: upper_def upper_char_idem)

lemma compute_rate_upper:
  "compute_rate table (upper a) (upper b) = compute_rate table a b"
  by (simp add: compute_rate_def upper_idem cong: sum.case_cong)

lemma exchange_rate_try_upper:
  "exchange_rate_try E data table (upper a) (upper b) = exchange_rate_try E data table a b"
  by (simp add: exchange_rate_try_def compute_rate_upper upper_idem cong: sum.case_cong)

lemma upper_char_not_lower:
  "\<not> (97 \<le> (of_char (upper_char c) :: nat) \<and> (of_char (upper_char c) :: nat) \<le> 122)"
proof (cases "97 \<le> (of_char c :: nat) \<and> (of_char c :: nat) \<le> 122")
  case True
  then have u: "upper_char c = char_of ((of_char c :: nat) - 32)"
    by (simp add: upper_char_def)
  from True have "((of_char c :: nat) - 32) mod 256 = of_char c - 32"
    by (intro mod_less) arith
  then have "(of_char (upper_char c) :: nat) = of_char c - 32"
    by (simp add: u of_char_of)
  with True show ?thesis
    by arith
next
  case False
  then have "upper_char c = c"
    by (rule upper_char_fixed)
  with False show ?thesis by simp
qed

lemma upper_no_lower:
  "\<forall>c \<in> set (upper s). \<not> (97 \<le> (of_char c :: nat) \<and> (of_char c :: nat) \<le> 122)"
  using upper_char_not_lower by (auto simp: upper_def)

lemma rate_message_from: "prefix (''1 '' @ a @ '' = **'') (rate_message a r b ts)"
  unfolding rate_message_def prefix_def
  by (rule exI [of _ "r @ '' '' @ b @ ''**'' @ newline @
        ''_Source: Open Exchange Rates, as of '' @ ts @ '' UTC_''"]) simp

lemma rate_message_to: "sublist ('' '' @ b @ ''**'' @ newline) (rate_message a r b ts)"
  unfolding rate_message_def sublist_def
  by (rule exI [of _ "''1 '' @ a @ '' = **'' @ r"],
      rule exI [of _ "''_Source: Open Exchange Rates, as of '' @ ts @ '' UTC_''"]) simp

text \<open>
  C10. \<open>get_exchange_rate\<close> gives the same result for a pair of codes and for the
  upper-cased pair, in every state of the services. A text it returns that is not
  failure-marked is the rate text of the two upper-cased codes: it begins with
  \<open>1 <FROM> = **\<close> and contains \<open> <TO>**\<close> before the end of its first line, where
  \<open><FROM>\<close> and \<open><TO>\<close> are the upper-cased arguments, which upper-casing leaves
  unchanged and which hold no lower-case letter \<open>a\<close> to \<open>z\<close>.
\<close>

theorem exchange_rate_case_insensitive:
  "get_exchange_rate E from_currency to_currency =
     get_exchange_rate E (upper from_currency) (upper to_currency)
   \<and> (get_exchange_rate E from_currency to_currency = Inr s \<and> \<not> startswith s cross_mark
      \<longrightarrow> (\<exists>r ts. s = rate_message (upper from_currency) r (upper to_currency) ts)
          \<and> prefix (''1 '' @ upper from_currency @ '' = **'') s
          \<and> sublist ('' '' @ upper to_currency @ ''**'' @ newline) s
          \<and> upper (upper from_currency) = upper from_currency
          \<and> upper (upper to_currency) = upper to_currency
          \<and> (\<forall>c \<in> set (upper from_currency @ upper to_currency).
                \<not> (97 \<le> (of_char c :: nat) \<and> (of_char c :: nat) \<le> 122)))"
proof -
  have 1: "get_exchange_rate E from_currency to_currency =
     get_exchange_rate E (upper from_currency) (upper to_currency)"
    by (simp add: get_exchange_rate_def exchange_rate_try_upper Let_def
        cong: sum.case_cong if_cong)
  have 2: "(\<exists>r ts. s = rate_message (upper from_currency) r (upper to_currency) ts)
          \<and> prefix (''1 '' @ upper from_currency @ '' = **'') s
          \<and> sublist ('' '' @ upper to_currency @ ''**'' @ newline) s"
    if "get_exchange_rate E from_currency to_currency = Inr s" "\<not> startswith s cross_mark"
  proof -
    from get_exchange_rate_cases [OF that(1)] that(2) failure_texts_marked
    obtain r ts where s: "s = rate_message (upper from_currency) r (upper to_currency) ts"
      by blast
    show ?thesis
      unfolding s using rate_message_from rate_message_to by blast
  qed
  have 3: "\<forall>c \<in> set (upper from_currency @ upper to_currency).
                \<not> (97 \<le> (of_char c :: nat) \<and> (of_char c :: nat) \<le> 122)"
    using upper_no_lower [of from_currency] upper_no_lower [of to_currency] by auto
  show ?thesis
    using 1 2 3 upper_idem by blast
qed

theorem exchange_rate_case_insensitive_witness:
  "get_exchange_rate sample_env ''eur'' ''usd'' = get_exchange_rate sample_env ''EUR'' ''USD''
   \<and> get_exchange_rate sample_env ''eur'' ''usd'' =
       Inr (rate_message ''EUR'' ''1.087'' ''USD'' ''01.01.1970 00:00'')
   \<and> \<not> startswith (rate_message ''EUR'' ''1.087'' ''USD'' ''01.01.1970 00:00'') cross_mark
   \<and> prefix ''1 EUR = **'' (rate_message ''EUR'' ''1.087'' ''USD'' ''01.01.1970 00:00'')
   \<and> sublist ('' USD**'' @ newline) (rate_message ''EUR'' ''1.087'' ''USD'' ''01.01.1970 00:00'')
   \<and> upper ''eur'' = ''EUR'' \<and> upper ''usd'' = ''USD''"
proof -
  have u: "upper ''eur'' = ''EUR''" "upper ''usd'' = ''USD''"
    by code_simp+
  show ?thesis
    using exchange_rate_case_insensitive [of sample_env "''eur''" "''usd''"
        "rate_message ''EUR'' ''1.087'' ''USD'' ''01.01.1970 00:00''"]
      sample_rate(1) rate_message_no_mark u
    by simp
qed

end
